theory Spec2Isabelle
  imports Complex_Main
begin

section \<open>Shared data model\<close>

text \<open>
  The two scripts work on OpenCV images held in NumPy arrays. An 8-bit colour image is a
  list of rows of pixels, a pixel being its three channel samples in the order OpenCV
  stores them (BGR on load, HSV after conversion); a single-channel image (a mask) is a
  list of rows of samples. Python floats are modelled as reals.
\<close>

type_synonym pixel = "nat \<times> nat \<times> nat"
type_synonym image = "pixel list list"
type_synonym gray = "nat list list"

datatype error = IndexError | ZeroDivisionError | AttributeError

section \<open>mask\_color.py: colour statistics of the masked pixels\<close>

definition calculate_brightness :: "real \<Rightarrow> real \<Rightarrow> real \<Rightarrow> real" where
  "calculate_brightness r g b = 0.299 * r + 0.587 * g + 0.114 * b"

definition get_simple_color_category :: "real \<Rightarrow> real \<Rightarrow> real \<Rightarrow> string" where
  "get_simple_color_category r g b =
     (if max r (max g b) < 50 then ''Dark''
      else if min r (min g b) > 200 then ''Light''
      else if r > g \<and> r > b then ''Reddish''
      else if g > r \<and> g > b then ''Greenish''
      else if b > r \<and> b > g then ''Bluish''
      else ''Mixed'')"

text \<open>
  \<^verbatim>\<open>binary_mask = mask > 0; poop_pixels = img[binary_mask]\<close>: boolean indexing selects,
  in row-major order, the pixels whose mask sample is nonzero. NumPy raises IndexError
  when the mask's shape is not the shape of the image's first two axes.
\<close>

definition select_row :: "pixel list \<Rightarrow> nat list \<Rightarrow> pixel list" where
  "select_row row mrow = map fst (filter (\<lambda>pm. snd pm > 0) (zip row mrow))"

definition boolean_index :: "image \<Rightarrow> gray \<Rightarrow> error + pixel list" where
  "boolean_index img msk =
     (if map length img = map length msk
      then Inr (concat (map (\<lambda>rm. select_row (fst rm) (snd rm)) (zip img msk)))
      else Inl IndexError)"

text \<open>\<^verbatim>\<open>np.mean(poop_pixels, axis=0).tolist()\<close> on a non-empty selection: the mean of each channel.\<close>

definition channel_mean :: "nat list \<Rightarrow> real" where
  "channel_mean xs = real (sum_list xs) / real (length xs)"

definition mean_axis0 :: "pixel list \<Rightarrow> real \<times> real \<times> real" where
  "mean_axis0 ps =
     (channel_mean (map fst ps),
      channel_mean (map (\<lambda>p. fst (snd p)) ps),
      channel_mean (map (\<lambda>p. snd (snd p)) ps))"

text \<open>
  Lines 150--159 of the script: the average colour (in BGR order), the brightness and the
  colour category of the selected pixels. \<^verbatim>\<open>poop_pixels.size == 0\<close> holds exactly when no
  pixel was selected.
\<close>

definition color_stats :: "pixel list \<Rightarrow> (real \<times> real \<times> real) \<times> real \<times> string" where
  "color_stats poop_pixels =
     (if length poop_pixels * 3 = 0 then ((0, 0, 0), 0, ''Dark'')
      else
        (let avg_color = mean_axis0 poop_pixels;
             r = snd (snd avg_color); g = fst (snd avg_color); b = fst avg_color
         in (avg_color, calculate_brightness r g b, get_simple_color_category r g b)))"

text \<open>Python's \<^verbatim>\<open>round(x, 2)\<close>: to the nearest hundredth, ties to the even neighbour.\<close>

definition round_half_even :: "real \<Rightarrow> int" where
  "round_half_even y =
     (let f = \<lfloor>y\<rfloor>; d = y - of_int f
      in if d < 1 / 2 then f else if d > 1 / 2 then f + 1 else if even f then f else f + 1)"

definition round2 :: "real \<Rightarrow> real" where
  "round2 x = of_int (round_half_even (x * 100)) / 100"

text \<open>\<^verbatim>\<open>os.path.basename\<close> on a POSIX path: what follows the last slash.\<close>

definition basename :: "string \<Rightarrow> string" where
  "basename p = rev (takeWhile (\<lambda>c. c \<noteq> CHR ''/'') (rev p))"

record color_result =
  session :: string
  mask_file :: string
  image_file :: string
  avg_color_b :: real
  avg_color_g :: real
  avg_color_r :: real
  brightness :: real
  color_category :: string

text \<open>
  One iteration of the loop over the mask files. The inputs are what the file system
  gave: the image path \<^verbatim>\<open>find_image\<close> found (or \<^verbatim>\<open>None\<close>) and what \<^verbatim>\<open>cv2.imread\<close> returned
  for the image and for the mask. \<open>Inr None\<close> is the \<^verbatim>\<open>continue\<close> of the loop, \<open>Inr (Some r)\<close>
  the record appended to \<^verbatim>\<open>results\<close>. The debug printing and overlay files are left out.
\<close>

definition analyse_mask ::
  "string \<Rightarrow> string \<Rightarrow> string option \<Rightarrow> image option \<Rightarrow> gray option \<Rightarrow> error + color_result option"
where
  "analyse_mask session_name mask_filename image_path img msk =
     (case image_path of
        None \<Rightarrow> Inr None
      | Some path \<Rightarrow>
          (case (img, msk) of
             (Some i, Some m) \<Rightarrow>
               (case boolean_index i m of
                  Inl e \<Rightarrow> Inl e
                | Inr poop_pixels \<Rightarrow>
                    (let st = color_stats poop_pixels; avg_color = fst st
                     in Inr (Some \<lparr>session = session_name, mask_file = mask_filename,
                          image_file = basename path,
                          avg_color_b = round2 (fst avg_color),
                          avg_color_g = round2 (fst (snd avg_color)),
                          avg_color_r = round2 (snd (snd avg_color)),
                          brightness = round2 (fst (snd st)),
                          color_category = snd (snd st)\<rparr>)))
           | _ \<Rightarrow> Inr None))"

text \<open>The loop itself: the records in the order of the mask files, the first error ending the run.\<close>

fun analyse_all ::
  "(string \<times> string \<times> string option \<times> image option \<times> gray option) list \<Rightarrow>
   color_result list \<Rightarrow> error + color_result list"
where
  "analyse_all [] results = Inr results"
| "analyse_all ((s, f, p, i, m) # rest) results =
     (case analyse_mask s f p i m of
        Inl e \<Rightarrow> Inl e
      | Inr None \<Rightarrow> analyse_all rest results
      | Inr (Some r) \<Rightarrow> analyse_all rest (results @ [r]))"

section \<open>salp.py: the OpenCV interface\<close>

text \<open>
  OpenCV is not part of the repository: the primitives the program calls are parameters
  of the model, collected in one record, with the arguments the source passes to them.
  A contour is the list of its vertices.
\<close>

type_synonym point = "int \<times> int"
type_synonym contour = "point list"

datatype color_code = COLOR_BGR2HSV | COLOR_BGR2RGB | COLOR_HSV2RGB
datatype retrieval_mode = RETR_EXTERNAL | RETR_LIST | RETR_CCOMP | RETR_TREE
datatype approx_method = CHAIN_APPROX_NONE | CHAIN_APPROX_SIMPLE

record moments_t =
  m00 :: real
  m10 :: real
  m01 :: real

record cv2 =
  imread :: "string \<Rightarrow> image option"
  convertScaleAbs :: "image \<Rightarrow> real \<Rightarrow> real \<Rightarrow> image"
  cvtColor :: "image \<Rightarrow> color_code \<Rightarrow> image"
  inRange :: "image \<Rightarrow> int list \<Rightarrow> int list \<Rightarrow> gray"
  findContours :: "gray \<Rightarrow> retrieval_mode \<Rightarrow> approx_method \<Rightarrow> contour list"
  drawContours :: "gray \<Rightarrow> contour list \<Rightarrow> int \<Rightarrow> nat \<Rightarrow> int \<Rightarrow> gray"
  dilate :: "gray \<Rightarrow> gray \<Rightarrow> gray"
  erode :: "gray \<Rightarrow> gray \<Rightarrow> gray"
  contourArea :: "contour \<Rightarrow> real"
  arcLength :: "contour \<Rightarrow> bool \<Rightarrow> real"
  moments :: "contour \<Rightarrow> moments_t"
  boundingRect :: "contour \<Rightarrow> int \<times> int \<times> int \<times> int"
  convexHull :: "contour \<Rightarrow> contour"
  fitEllipse_angle :: "contour \<Rightarrow> real"

text \<open>\<^verbatim>\<open>np.zeros_like(mask)\<close> and \<^verbatim>\<open>np.ones((n, n), np.uint8)\<close>.\<close>

definition zeros_like :: "gray \<Rightarrow> gray" where
  "zeros_like m = map (map (\<lambda>_. 0)) m"

definition ones :: "nat \<Rightarrow> nat \<Rightarrow> gray" where
  "ones rows cols = replicate rows (replicate cols 1)"

section \<open>salp.py: the state of HumanInTheLoopProcessor\<close>

text \<open>
  The attributes of the application object that the operations below read or write. A
  slider is represented by its value; \<open>dialogs\<close> records the message boxes shown (by
  their titles), in order. Painting (\<^verbatim>\<open>update_image_display\<close>, \<^verbatim>\<open>update_live_results_table\<close>,
  \<^verbatim>\<open>update_roi_action_buttons\<close>, \<^verbatim>\<open>_update_hsv_bars\<close>, cursors, the status line, the layout
  of the buttons) reads these attributes and changes none of them; it is not modelled,
  and neither are the files the program writes. The live table divides by the scale
  factor as the measurement of \<^verbatim>\<open>handle_accept\<close> does; the operations below are those of a
  session whose painting goes through. Of the buttons only the state of the undo button
  is kept.
\<close>

type_synonym hsv_state = "int \<times> int \<times> int \<times> int \<times> int \<times> int"

datatype btn_state = NORMAL | DISABLED

datatype dialog = ShowWarning string | ShowError string | ShowInfo string

record annotation =
  Long_Axis_Length :: real
  Short_Axis_Length :: real
  Long_Axis_Texture :: string
  Short_Axis_Texture :: string

record measurement =
  Session_ID :: string
  Image_Number :: nat
  Filename :: string
  ROI_ID :: int
  Centroid_X_px :: int
  Centroid_Y_px :: int
  Area :: real
  Perimeter :: real
  Equiv_Diameter :: real
  Aspect_Ratio :: real
  Circularity_Ratio :: real
  Solidity_Ratio :: real
  Orientation_Angle :: "real option"
  Side_Annotation :: "annotation option"

record app =
  session_id :: string
  image_paths :: "string list"
  current_image_index :: nat
  total_images :: nat
  results_df :: "measurement list"
  manual_annotations :: "int \<rightharpoonup> annotation"
  scale_factor :: real
  scale_unit :: string
  original_image :: "image option"
  processed_image :: "image option"
  final_rois :: "contour list"
  preview_zoom_factor :: real
  selected_roi_index :: int
  drawing_mode :: bool
  new_roi_points :: "point list"
  color_picker_active :: bool
  color_picker_history :: "hsv_state list"
  contrast_value :: real
  h_min :: int
  h_max :: int
  s_min :: int
  s_max :: int
  v_min :: int
  v_max :: int
  roi_expansion :: int
  min_area :: int
  max_area :: int
  undo_color_pick_btn :: btn_state
  dialogs :: "dialog list"
  root_destroyed :: bool

text \<open>
  \<^verbatim>\<open>Scale.set\<close> of Tk forces the value into the range of the slider. The ranges are those
  of \<^verbatim>\<open>setup_gui\<close>: 0 to 179 for hue, 0 to 255 for saturation and value, -50 to 50 for the
  expansion, 0 to 50000 and 0 to 500000 for the area bounds.
\<close>

definition scale_set :: "int \<Rightarrow> int \<Rightarrow> int \<Rightarrow> int" where
  "scale_set lo hi v = (if v < lo then lo else if v > hi then hi else v)"

definition set_h_min :: "int \<Rightarrow> app \<Rightarrow> app" where
  "set_h_min v st = st\<lparr>h_min := scale_set 0 179 v\<rparr>"

definition set_h_max :: "int \<Rightarrow> app \<Rightarrow> app" where
  "set_h_max v st = st\<lparr>h_max := scale_set 0 179 v\<rparr>"

definition set_s_min :: "int \<Rightarrow> app \<Rightarrow> app" where
  "set_s_min v st = st\<lparr>s_min := scale_set 0 255 v\<rparr>"

definition set_s_max :: "int \<Rightarrow> app \<Rightarrow> app" where
  "set_s_max v st = st\<lparr>s_max := scale_set 0 255 v\<rparr>"

definition set_v_min :: "int \<Rightarrow> app \<Rightarrow> app" where
  "set_v_min v st = st\<lparr>v_min := scale_set 0 255 v\<rparr>"

definition set_v_max :: "int \<Rightarrow> app \<Rightarrow> app" where
  "set_v_max v st = st\<lparr>v_max := scale_set 0 255 v\<rparr>"

text \<open>The six slider values, in the order of the undo snapshot.\<close>

definition hsv_of :: "app \<Rightarrow> hsv_state" where
  "hsv_of st = (h_min st, h_max st, s_min st, s_max st, v_min st, v_max st)"

text \<open>
  The attributes as \<^verbatim>\<open>__init__\<close> leaves them once \<^verbatim>\<open>setup_gui\<close> has run, before any folder is
  chosen: \<^verbatim>\<open>setup_gui\<close> ends with \<^verbatim>\<open>reset_hsv_defaults\<close>, and the three sliders it does not set
  stand at 0, where Tk creates them. The session id is the start time.
\<close>

definition init_app :: "string \<Rightarrow> app" where
  "init_app sid =
     \<lparr>session_id = sid, image_paths = [], current_image_index = 0, total_images = 0,
      results_df = [], manual_annotations = Map.empty, scale_factor = 1, scale_unit = ''px'',
      original_image = None, processed_image = None, final_rois = [],
      preview_zoom_factor = 1, selected_roi_index = - 1, drawing_mode = False,
      new_roi_points = [], color_picker_active = False, color_picker_history = [],
      contrast_value = 1, h_min = 2, h_max = 91, s_min = 43, s_max = 164, v_min = 48,
      v_max = 196, roi_expansion = 0, min_area = 0, max_area = 0,
      undo_color_pick_btn = NORMAL, dialogs = [], root_destroyed = False\<rparr>"

subsection \<open>Selection and modes\<close>

definition deselect_roi :: "app \<Rightarrow> app" where
  "deselect_roi st = st\<lparr>selected_roi_index := - 1\<rparr>"

definition select_roi :: "int \<Rightarrow> app \<Rightarrow> app" where
  "select_roi index st =
     (if \<not> drawing_mode st \<and> \<not> color_picker_active st
      then st\<lparr>selected_roi_index := index\<rparr> else st)"

definition cancel_drawing :: "app \<Rightarrow> app" where
  "cancel_drawing st = st\<lparr>drawing_mode := False, new_roi_points := []\<rparr>"

definition exit_color_picker_mode :: "app \<Rightarrow> app" where
  "exit_color_picker_mode st = st\<lparr>color_picker_active := False\<rparr>"

definition enter_drawing_mode :: "app \<Rightarrow> app" where
  "enter_drawing_mode st =
     (deselect_roi ((exit_color_picker_mode st)\<lparr>drawing_mode := True\<rparr>))\<lparr>new_roi_points := []\<rparr>"

definition enter_color_picker_mode :: "app \<Rightarrow> app" where
  "enter_color_picker_mode st =
     (cancel_drawing st)\<lparr>color_picker_active := True, color_picker_history := [],
        undo_color_pick_btn := DISABLED\<rparr>"

subsection \<open>The detection pipeline\<close>

text \<open>
  Steps 1 to 4 of \<^verbatim>\<open>run_detection_pipeline\<close> on a loaded image: the contrast-adjusted image
  (\<^verbatim>\<open>self.processed_image\<close>), the mask, the contours of the raw mask and the contours after
  the expansion step, that is the value of \<^verbatim>\<open>contours\<close> when the area filter reads it.
\<close>

definition adjust_contrast :: "cv2 \<Rightarrow> app \<Rightarrow> image \<Rightarrow> image" where
  "adjust_contrast cv st img = convertScaleAbs cv img (contrast_value st) 0"

definition threshold_mask :: "cv2 \<Rightarrow> app \<Rightarrow> image \<Rightarrow> gray" where
  "threshold_mask cv st img =
     (let hsv_image = cvtColor cv (adjust_contrast cv st img) COLOR_BGR2HSV;
          lower = [h_min st, s_min st, v_min st];
          upper = [h_max st, s_max st, v_max st]
      in inRange cv hsv_image lower upper)"

definition initial_contours :: "cv2 \<Rightarrow> app \<Rightarrow> image \<Rightarrow> contour list" where
  "initial_contours cv st img =
     findContours cv (threshold_mask cv st img) RETR_EXTERNAL CHAIN_APPROX_SIMPLE"

definition post_process :: "cv2 \<Rightarrow> app \<Rightarrow> gray \<Rightarrow> contour list \<Rightarrow> contour list" where
  "post_process cv st msk contours =
     (let expansion = roi_expansion st
      in if expansion \<noteq> 0 then
           (let temp_mask = drawContours cv (zeros_like msk) contours (- 1) 255 (- 1);
                kernel = ones (nat \<bar>expansion\<bar>) (nat \<bar>expansion\<bar>);
                processed_mask =
                  (if expansion > 0 then dilate cv temp_mask kernel else erode cv temp_mask kernel)
            in findContours cv processed_mask RETR_EXTERNAL CHAIN_APPROX_SIMPLE)
         else contours)"

definition pipeline_contours :: "cv2 \<Rightarrow> app \<Rightarrow> image \<Rightarrow> contour list" where
  "pipeline_contours cv st img =
     post_process cv st (threshold_mask cv st img) (initial_contours cv st img)"

definition area_in_bounds :: "cv2 \<Rightarrow> int \<Rightarrow> int \<Rightarrow> contour \<Rightarrow> bool" where
  "area_in_bounds cv min_a max_a roi =
     (real_of_int min_a \<le> contourArea cv roi \<and> contourArea cv roi \<le> real_of_int max_a)"

definition run_detection_pipeline :: "cv2 \<Rightarrow> app \<Rightarrow> app" where
  "run_detection_pipeline cv st =
     (case original_image st of
        None \<Rightarrow> st
      | Some img \<Rightarrow>
          (let contours = pipeline_contours cv st img;
               min_a = min_area st; max_a = max_area st
           in deselect_roi
                (st\<lparr>processed_image := Some (adjust_contrast cv st img),
                    final_rois := filter (area_in_bounds cv min_a max_a) contours\<rparr>)))"

definition on_slider_change :: "cv2 \<Rightarrow> app \<Rightarrow> app" where
  "on_slider_change cv st = (if \<not> drawing_mode st then run_detection_pipeline cv st else st)"

definition reset_hsv_defaults :: "cv2 \<Rightarrow> app \<Rightarrow> app" where
  "reset_hsv_defaults cv st =
     on_slider_change cv
       (set_v_max 196 (set_v_min 48 (set_s_max 164 (set_s_min 43 (set_h_max 91 (set_h_min 2
          (st\<lparr>contrast_value := 1\<rparr>)))))))"

subsection \<open>Errors as values\<close>

definition bindE :: "error + 'a \<Rightarrow> ('a \<Rightarrow> error + 'b) \<Rightarrow> error + 'b" where
  "bindE m f = (case m of Inl e \<Rightarrow> Inl e | Inr x \<Rightarrow> f x)"

text \<open>Division of Python floats raises ZeroDivisionError on a zero divisor.\<close>

definition py_truediv :: "real \<Rightarrow> real \<Rightarrow> error + real" where
  "py_truediv a b = (if b = 0 then Inl ZeroDivisionError else Inr (a / b))"

text \<open>\<^verbatim>\<open>int(x)\<close> on a float truncates towards zero.\<close>

definition py_int :: "real \<Rightarrow> int" where
  "py_int x = (if 0 \<le> x then \<lfloor>x\<rfloor> else \<lceil>x\<rceil>)"

text \<open>\<^verbatim>\<open>list.pop(i)\<close>: a negative index counts from the end, an index out of range raises.\<close>

definition remove_nth :: "nat \<Rightarrow> 'a list \<Rightarrow> 'a list" where
  "remove_nth k xs = take k xs @ drop (Suc k) xs"

definition py_pop :: "'a list \<Rightarrow> int \<Rightarrow> error + 'a list" where
  "py_pop xs i =
     (if 0 \<le> i \<and> i < int (length xs) then Inr (remove_nth (nat i) xs)
      else if i < 0 \<and> - int (length xs) \<le> i then Inr (remove_nth (nat (int (length xs) + i)) xs)
      else Inl IndexError)"

text \<open>
  \<^verbatim>\<open>a[i, j]\<close> on an array with non-negative indices; \<^verbatim>\<open>shape[0]\<close> and \<^verbatim>\<open>shape[1]\<close> of an image.
\<close>

definition getitem2 :: "'a list list \<Rightarrow> int \<Rightarrow> int \<Rightarrow> error + 'a" where
  "getitem2 a i j =
     (if 0 \<le> i \<and> i < int (length a) \<and> 0 \<le> j \<and> j < int (length (a ! nat i))
      then Inr (a ! nat i ! nat j) else Inl IndexError)"

definition shape0 :: "'a list list \<Rightarrow> nat" where
  "shape0 a = length a"

definition shape1 :: "'a list list \<Rightarrow> nat" where
  "shape1 a = (case a of [] \<Rightarrow> 0 | row # _ \<Rightarrow> length row)"

subsection \<open>The colour picker\<close>

text \<open>
  \<^verbatim>\<open>handle_color_pick\<close>. The sampled \<^verbatim>\<open>h, s, v\<close> are NumPy \<^verbatim>\<open>uint8\<close> scalars; with the NumPy the
  program is written for (it calls \<^verbatim>\<open>np.int0\<close>, which NumPy 2 no longer has) a \<^verbatim>\<open>uint8\<close>
  scalar combined with a Python integer gives a 64-bit integer, so \<^verbatim>\<open>h - H_TOL\<close> and
  \<^verbatim>\<open>s + SV_TOL\<close> do not wrap around: they are integers here.
\<close>

definition handle_color_pick :: "cv2 \<Rightarrow> int \<Rightarrow> int \<Rightarrow> app \<Rightarrow> error + app" where
  "handle_color_pick cv img_x img_y st =
     (case original_image st of
        None \<Rightarrow> Inl AttributeError
      | Some img \<Rightarrow>
          if \<not> (0 \<le> img_y \<and> img_y < int (shape0 img) \<and> 0 \<le> img_x \<and> img_x < int (shape1 img))
          then Inr st
          else
            (let current_state = hsv_of st;
                 st1 = st\<lparr>color_picker_history := color_picker_history st @ [current_state],
                          undo_color_pick_btn := NORMAL\<rparr>
             in bindE (getitem2 img img_y img_x) (\<lambda>bgr_color.
                bindE (getitem2 (cvtColor cv [[bgr_color]] COLOR_BGR2HSV) 0 0) (\<lambda>hsv_color.
                  (let h = int (fst hsv_color); s = int (fst (snd hsv_color));
                       v = int (snd (snd hsv_color));
                       H_TOL = 5; SV_TOL = 25;
                       st2 =
                         (if length (color_picker_history st1) = 1 then
                            (let a = set_h_min (max 0 (h - H_TOL)) st1;
                                 b = set_h_max (min 179 (h + H_TOL)) a;
                                 c = set_s_min (max 0 (s - SV_TOL)) b;
                                 d = set_s_max (min 255 (s + SV_TOL)) c;
                                 e = set_v_min (max 0 (v - SV_TOL)) d
                             in set_v_max (min 255 (v + SV_TOL)) e)
                          else
                            (let a = set_h_min (min (h_min st1) h) st1;
                                 b = set_h_max (max (h_max a) h) a;
                                 c = set_s_min (min (s_min b) s) b;
                                 d = set_s_max (max (s_max c) s) c;
                                 e = set_v_min (min (v_min d) v) d
                             in set_v_max (max (v_max e) v) e))
                   in Inr (on_slider_change cv st2))))))"

definition restore_hsv :: "hsv_state \<Rightarrow> app \<Rightarrow> app" where
  "restore_hsv last_state st =
     (case last_state of (l0, l1, l2, l3, l4, l5) \<Rightarrow>
        set_v_max l5 (set_v_min l4 (set_s_max l3 (set_s_min l2 (set_h_max l1 (set_h_min l0 st))))))"

definition undo_last_color_pick :: "cv2 \<Rightarrow> app \<Rightarrow> app" where
  "undo_last_color_pick cv st =
     (let st1 =
        (if color_picker_history st \<noteq> [] then
           (let last_state = last (color_picker_history st);
                popped = st\<lparr>color_picker_history := butlast (color_picker_history st)\<rparr>
            in on_slider_change cv (restore_hsv last_state popped))
         else st)
      in if color_picker_history st1 = [] then st1\<lparr>undo_color_pick_btn := DISABLED\<rparr> else st1)"

subsection \<open>Editing the region list\<close>

definition finalize_roi :: "app \<Rightarrow> app" where
  "finalize_roi st =
     cancel_drawing
       (if length (new_roi_points st) \<ge> 3
        then (let new_contour = new_roi_points st
              in st\<lparr>final_rois := final_rois st @ [new_contour]\<rparr>)
        else st\<lparr>dialogs := dialogs st @ [ShowWarning ''Drawing Error'']\<rparr>)"

definition delete_selected_roi :: "app \<Rightarrow> error + app" where
  "delete_selected_roi st =
     (if selected_roi_index st \<noteq> - 1 then
        (let index_to_delete = selected_roi_index st
         in bindE (py_pop (final_rois st) index_to_delete) (\<lambda>rois.
              Inr (deselect_roi
                (st\<lparr>final_rois := rois,
                    manual_annotations := (manual_annotations st)(index_to_delete + 1 := None)\<rparr>))))
      else Inr st)"

subsection \<open>Measurements\<close>

text \<open>
  The body of the loop of \<^verbatim>\<open>handle_accept\<close> (lines 673 to 688): the measurement row of the
  region at position \<open>i\<close>. Every division of Python floats is a \<open>py_truediv\<close>; \<^verbatim>\<open>np.nan\<close>
  is \<open>None\<close>. The last division has a NumPy float as dividend, which does not raise, and is
  reached only with a nonzero scale factor.
\<close>

definition roi_row :: "cv2 \<Rightarrow> app \<Rightarrow> string \<Rightarrow> nat \<Rightarrow> contour \<Rightarrow> error + measurement" where
  "roi_row cv st current_filename i roi =
     (let pixel_area = contourArea cv roi;
          pixel_perimeter = arcLength cv roi True;
          M = moments cv roi
      in bindE (py_truediv (m10 M) (m00 M + 1 / 10 ^ 6)) (\<lambda>qx.
         bindE (py_truediv (m01 M) (m00 M + 1 / 10 ^ 6)) (\<lambda>qy.
           (let cx = py_int qx; cy = py_int qy;
                w = fst (snd (snd (boundingRect cv roi)));
                h = snd (snd (snd (boundingRect cv roi)))
            in bindE (if h \<noteq> 0 then py_truediv (real_of_int w) (real_of_int h) else Inr 0)
               (\<lambda>aspect_ratio.
                 (let roi_hull = convexHull cv roi; hull_area = contourArea cv roi_hull
                  in bindE (if hull_area \<noteq> 0 then py_truediv pixel_area hull_area else Inr 0)
                     (\<lambda>solidity.
                     bindE (if pixel_perimeter \<noteq> 0
                            then py_truediv (4 * pi * pixel_area) (pixel_perimeter ^ 2) else Inr 0)
                     (\<lambda>circularity.
                       (let orientation =
                              (if length roi \<ge> 5 then Some (fitEllipse_angle cv roi) else None)
                        in bindE (py_truediv pixel_area (scale_factor st ^ 2)) (\<lambda>scaled_area.
                           bindE (py_truediv pixel_perimeter (scale_factor st))
                           (\<lambda>scaled_perimeter.
                             (let scaled_equiv_diameter =
                                    sqrt (4 * pixel_area / pi) / scale_factor st;
                                  roi_id = int i + 1
                              in Inr \<lparr>Session_ID = session_id st,
                                      Image_Number = current_image_index st + 1,
                                      Filename = current_filename, ROI_ID = roi_id,
                                      Centroid_X_px = cx, Centroid_Y_px = cy,
                                      Area = scaled_area, Perimeter = scaled_perimeter,
                                      Equiv_Diameter = scaled_equiv_diameter,
                                      Aspect_Ratio = aspect_ratio,
                                      Circularity_Ratio = circularity,
                                      Solidity_Ratio = solidity,
                                      Orientation_Angle = orientation,
                                      Side_Annotation = manual_annotations st roi_id\<rparr>))))))))))))"

fun image_results :: "cv2 \<Rightarrow> app \<Rightarrow> string \<Rightarrow> nat \<Rightarrow> contour list \<Rightarrow> error + measurement list" where
  "image_results cv st current_filename i [] = Inr []"
| "image_results cv st current_filename i (roi # rois) =
     bindE (roi_row cv st current_filename i roi) (\<lambda>row.
     bindE (image_results cv st current_filename (Suc i) rois) (\<lambda>rows. Inr (row # rows)))"

subsection \<open>Moving through the batch\<close>

text \<open>
  \<^verbatim>\<open>finalize_session\<close> writes the final files, tells the user and destroys the root window.
  The measurement table always exists by then (\<^verbatim>\<open>setup_results_table\<close>), and so do the
  output folders.
\<close>

definition finalize_session :: "bool \<Rightarrow> app \<Rightarrow> app" where
  "finalize_session is_manual_exit st =
     (if results_df st = [] then
        (if \<not> is_manual_exit then st\<lparr>dialogs := dialogs st @ [ShowInfo ''Session End'']\<rparr>
         else st)\<lparr>root_destroyed := True\<rparr>
      else st\<lparr>dialogs := dialogs st @ [ShowInfo ''Session Finished''], root_destroyed := True\<rparr>)"

text \<open>
  \<^verbatim>\<open>process_next_image\<close> and \<^verbatim>\<open>handle_skip\<close> call each other: an unreadable image is skipped
  (without being copied) and the next one is tried. The index only grows, up to the
  number of images, so the recursion ends.
\<close>

function process_next_image :: "cv2 \<Rightarrow> app \<Rightarrow> error + app"
  and handle_skip :: "cv2 \<Rightarrow> app \<Rightarrow> bool \<Rightarrow> error + app"
where
  "process_next_image cv st =
     (if current_image_index st \<ge> total_images st then Inr (finalize_session False st)
      else
        (let st1 = (deselect_roi (exit_color_picker_mode (cancel_drawing
                      (st\<lparr>manual_annotations := Map.empty\<rparr>))))\<lparr>preview_zoom_factor := 1\<rparr>
         in if current_image_index st1 < length (image_paths st1) then
              (let image_path = image_paths st1 ! current_image_index st1;
                   st2 = st1\<lparr>original_image := imread cv image_path\<rparr>
               in if original_image st2 = None
                  then handle_skip cv (st2\<lparr>dialogs := dialogs st2 @ [ShowWarning ''File Error'']\<rparr>) True
                  else Inr (reset_hsv_defaults cv st2))
            else Inl IndexError))"
| "handle_skip cv st is_corrupt =
     (if image_paths st = [] then Inr st
      else if current_image_index st < length (image_paths st) then
        process_next_image cv (st\<lparr>current_image_index := current_image_index st + 1\<rparr>)
      else Inl IndexError)"
  by pat_completeness auto
termination
  by (relation "measure (\<lambda>x. case x of
        Inl (cv, st) \<Rightarrow> 2 * (total_images st - current_image_index st) + 1
      | Inr (cv, st, c) \<Rightarrow> max 2 (2 * (total_images st - current_image_index st)))")
     (auto simp: deselect_roi_def exit_color_picker_mode_def cancel_drawing_def)

declare process_next_image.simps [simp del] handle_skip.simps [simp del]

definition handle_accept :: "cv2 \<Rightarrow> app \<Rightarrow> error + app" where
  "handle_accept cv st =
     (if image_paths st = [] then Inr st
      else if current_image_index st < length (image_paths st) then
        (let current_path = image_paths st ! current_image_index st;
             current_filename = basename current_path
         in bindE (image_results cv st current_filename 0 (final_rois st)) (\<lambda>rows.
              (let st1 = (if rows \<noteq> [] then st\<lparr>results_df := results_df st @ rows\<rparr> else st)
               in if original_image st1 = None then Inl AttributeError
                  else process_next_image cv
                         (st1\<lparr>current_image_index := current_image_index st1 + 1\<rparr>))))
      else Inl IndexError)"

section \<open>salp.py: the scale calibration window\<close>

text \<open>
  The state of \<^verbatim>\<open>ScaleCalibrationWindow\<close> that \<^verbatim>\<open>confirm_scale\<close> reads and writes. Its own
  \<^verbatim>\<open>scale_factor\<close> and \<^verbatim>\<open>scale_unit\<close> are named \<open>win_scale_factor\<close> and \<open>win_scale_unit\<close> here, the
  plain names being those of the application.
\<close>

record calib =
  p1 :: "point option"
  p2 :: "point option"
  win_scale_factor :: real
  win_scale_unit :: string
  is_confirmed :: bool
  win_destroyed :: bool
  win_dialogs :: "dialog list"

text \<open>The window as \<^verbatim>\<open>__init__\<close> leaves it.\<close>

definition new_calibration_window :: calib where
  "new_calibration_window =
     \<lparr>p1 = None, p2 = None, win_scale_factor = 1, win_scale_unit = ''px'',
      is_confirmed = False, win_destroyed = False, win_dialogs = []\<rparr>"

definition math_dist :: "point \<Rightarrow> point \<Rightarrow> real" where
  "math_dist p q = sqrt (real_of_int ((fst p - fst q) ^ 2 + (snd p - snd q) ^ 2))"

text \<open>\<^verbatim>\<open>str.strip()\<close>: the characters Python counts as white space, among the ASCII ones.\<close>

definition is_space :: "char \<Rightarrow> bool" where
  "is_space c = (c \<in> set [CHR 0x09, CHR 0x0A, CHR 0x0B, CHR 0x0C, CHR 0x0D,
                           CHR 0x1C, CHR 0x1D, CHR 0x1E, CHR 0x1F, CHR 0x20])"

definition strip :: "string \<Rightarrow> string" where
  "strip s = rev (dropWhile is_space (rev (dropWhile is_space s)))"

text \<open>
  \<^verbatim>\<open>confirm_scale\<close>, with the answers of the two dialogs as arguments: \<open>length_real\<close> is what
  \<^verbatim>\<open>askfloat\<close> returned and \<open>unit\<close> what \<^verbatim>\<open>askstring\<close> returned (\<open>None\<close> when the user cancelled).
\<close>

definition confirm_scale :: "real option \<Rightarrow> string option \<Rightarrow> calib \<Rightarrow> calib" where
  "confirm_scale length_real unit win =
     (case (p1 win, p2 win) of
        (Some a, Some b) \<Rightarrow>
          (let dist_px = math_dist a b
           in case length_real of
                None \<Rightarrow> win
              | Some l \<Rightarrow>
                  if l > 0 then
                    (case unit of
                       None \<Rightarrow> win
                     | Some u \<Rightarrow>
                         if u \<noteq> [] \<and> strip u \<noteq> [] then
                           win\<lparr>win_scale_factor := dist_px / l, win_scale_unit := strip u,
                               is_confirmed := True, win_destroyed := True\<rparr>
                         else win)
                  else win)
      | _ \<Rightarrow> win\<lparr>win_dialogs := win_dialogs win @ [ShowError ''Error'']\<rparr>)"


text \<open>
  What \<^verbatim>\<open>start_calibration_or_processing\<close> does once the window is closed: the scale of the
  window is taken over only when it was confirmed.
\<close>

definition adopt_calibration :: "calib \<Rightarrow> app \<Rightarrow> app" where
  "adopt_calibration calib_window st =
     (if is_confirmed calib_window then
        st\<lparr>scale_factor := win_scale_factor calib_window,
           scale_unit := win_scale_unit calib_window,
           dialogs := dialogs st @ [ShowInfo ''Scale Set'']\<rparr>
      else st\<lparr>dialogs := dialogs st @ [ShowWarning ''Calibration Canceled'']\<rparr>)"

section \<open>An example environment\<close>

text \<open>
  To run the operations on concrete inputs, a small stand-in for OpenCV: the colour
  conversion is OpenCV's on grays and on the pure primaries, the threshold is the
  inclusive per-channel test, and every foreground pixel is a one-point contour (what
  OpenCV returns for isolated pixels). Dilation and erosion are crude: a kernel wider
  than one pixel fills, respectively clears, a mask that is not uniform.
\<close>

definition example_bgr2hsv :: "pixel \<Rightarrow> pixel" where
  "example_bgr2hsv p =
     (case p of (b, g, r) \<Rightarrow>
        if b = g \<and> g = r then (0, 0, b)
        else if p = (0, 255, 0) then (60, 255, 255)
        else if p = (255, 0, 0) then (120, 255, 255)
        else if p = (0, 0, 255) then (0, 255, 255)
        else (0, 0, max b (max g r)))"

definition example_inRange :: "image \<Rightarrow> int list \<Rightarrow> int list \<Rightarrow> gray" where
  "example_inRange hsv lower upper =
     map (map (\<lambda>p. if lower ! 0 \<le> int (fst p) \<and> int (fst p) \<le> upper ! 0
                      \<and> lower ! 1 \<le> int (fst (snd p)) \<and> int (fst (snd p)) \<le> upper ! 1
                      \<and> lower ! 2 \<le> int (snd (snd p)) \<and> int (snd (snd p)) \<le> upper ! 2
                    then 255 else 0)) hsv"

definition example_findContours :: "gray \<Rightarrow> contour list" where
  "example_findContours m =
     concat (map (\<lambda>yr. map (\<lambda>xp. [(int (fst xp), int (fst yr))])
                          (filter (\<lambda>xp. snd xp \<noteq> 0) (enumerate 0 (snd yr))))
                 (enumerate 0 m))"

definition example_drawContours :: "gray \<Rightarrow> contour list \<Rightarrow> int \<Rightarrow> nat \<Rightarrow> int \<Rightarrow> gray" where
  "example_drawContours m cs idx color thickness =
     map (\<lambda>yr. map (\<lambda>xp. if (int (fst xp), int (fst yr)) \<in> set (concat cs)
                          then color else snd xp)
                    (enumerate 0 (snd yr)))
         (enumerate 0 m)"

definition example_dilate :: "gray \<Rightarrow> gray \<Rightarrow> gray" where
  "example_dilate m k =
     (if length k \<le> 1 \<or> \<not> list_ex (\<lambda>v. v \<noteq> 0) (concat m) then m
      else map (map (\<lambda>_. 255)) m)"

definition example_erode :: "gray \<Rightarrow> gray \<Rightarrow> gray" where
  "example_erode m k =
     (if length k \<le> 1 \<or> list_all (\<lambda>v. v \<noteq> 0) (concat m) then m else zeros_like m)"

text \<open>The polygon area by the shoelace formula, as \<^verbatim>\<open>cv2.contourArea\<close> computes it.\<close>

definition shoelace :: "contour \<Rightarrow> int" where
  "shoelace c =
     (case c of
        [] \<Rightarrow> 0
      | p # ps \<Rightarrow> sum_list (map (\<lambda>e. fst (fst e) * snd (snd e) - fst (snd e) * snd (fst e))
                              (zip c (ps @ [p]))))"

definition example_contourArea :: "contour \<Rightarrow> real" where
  "example_contourArea c = \<bar>real_of_int (shoelace c)\<bar> / 2"

definition example_image :: image where
  "example_image = [[(0, 255, 0), (0, 0, 0), (0, 255, 0)]]"

definition example_cv :: cv2 where
  "example_cv =
     \<lparr>imread = (\<lambda>path. if path = ''a.png'' \<or> path = ''b.png'' then Some example_image else None),
      convertScaleAbs = (\<lambda>img alpha beta. img),
      cvtColor = (\<lambda>img code. map (map example_bgr2hsv) img),
      inRange = example_inRange,
      findContours = (\<lambda>m mode method. example_findContours m),
      drawContours = example_drawContours,
      dilate = example_dilate,
      erode = example_erode,
      contourArea = example_contourArea,
      arcLength = (\<lambda>c closed. 0),
      moments = (\<lambda>c. \<lparr>m00 = example_contourArea c, m10 = 0, m01 = 0\<rparr>),
      boundingRect = (\<lambda>c. (0, 0, 1, 1)),
      convexHull = (\<lambda>c. c),
      fitEllipse_angle = (\<lambda>c. 0)\<rparr>"

text \<open>
  The application as it stands once the first image is loaded and nothing was touched:
  the sliders at the values \<^verbatim>\<open>setup_gui\<close> and \<^verbatim>\<open>reset_hsv_defaults\<close> give them.
\<close>

definition example_app :: app where
  "example_app =
     \<lparr>session_id = ''20250101_120000'', image_paths = [''a.png'', ''bad.png'', ''b.png''],
      current_image_index = 0, total_images = 3, results_df = [],
      manual_annotations = Map.empty, scale_factor = 1, scale_unit = ''px'',
      original_image = Some example_image, processed_image = None, final_rois = [],
      preview_zoom_factor = 1, selected_roi_index = - 1, drawing_mode = False,
      new_roi_points = [], color_picker_active = False, color_picker_history = [],
      contrast_value = 1, h_min = 2, h_max = 91, s_min = 43, s_max = 164, v_min = 48,
      v_max = 196, roi_expansion = 0, min_area = 0, max_area = 0,
      undo_color_pick_btn = DISABLED, dialogs = [], root_destroyed = False\<rparr>"

text \<open>The same with the thresholds around pure green, as a first pick on a green pixel sets them.\<close>

definition example_green :: app where
  "example_green =
     example_app\<lparr>h_min := 55, h_max := 65, s_min := 230, s_max := 255, v_min := 230,
       v_max := 255\<rparr>"


text \<open>
  A picking session on the example image: a first pick on the green pixel at (0, 0), the
  undo of that pick, and a second pick on the same pixel.
\<close>

definition example_first_pick :: "error + app" where
  "example_first_pick = handle_color_pick example_cv 0 0 (enter_color_picker_mode example_app)"

definition example_undone :: "error + app" where
  "example_undone = bindE example_first_pick (\<lambda>a. Inr (undo_last_color_pick example_cv a))"

definition example_second_pick :: "error + app" where
  "example_second_pick = bindE example_undone (handle_color_pick example_cv 0 0)"


definition example_zero_line :: calib where
  "example_zero_line = new_calibration_window\<lparr>p1 := Some (10, 10), p2 := Some (10, 10)\<rparr>"

section \<open>Slider values within range\<close>

text \<open>The six values of an HSV snapshot lie in the ranges of their sliders.\<close>

definition hsv_valid :: "hsv_state \<Rightarrow> bool" where
  "hsv_valid r =
     (case r of (a, b, c, d, e, f) \<Rightarrow>
        0 \<le> a \<and> a \<le> 179 \<and> 0 \<le> b \<and> b \<le> 179 \<and> 0 \<le> c \<and> c \<le> 255
        \<and> 0 \<le> d \<and> d \<le> 255 \<and> 0 \<le> e \<and> e \<le> 255 \<and> 0 \<le> f \<and> f \<le> 255)"

section \<open>Facts about mask\_color.py\<close>






section \<open>Facts about the detection pipeline\<close>

lemmas pipeline_defs = run_detection_pipeline_def pipeline_contours_def post_process_def
  initial_contours_def threshold_mask_def adjust_contrast_def deselect_roi_def
  zeros_like_def ones_def

lemma area_in_bounds_fun:
  "area_in_bounds cv a b =
     (\<lambda>c. real_of_int a \<le> contourArea cv c \<and> contourArea cv c \<le> real_of_int b)"
  by (rule ext) (simp add: area_in_bounds_def)

lemma example_cv_simps:
  "imread example_cv = (\<lambda>path. if path = ''a.png'' \<or> path = ''b.png'' then Some example_image else None)"
  "convertScaleAbs example_cv = (\<lambda>img alpha beta. img)"
  "cvtColor example_cv = (\<lambda>img code. map (map example_bgr2hsv) img)"
  "inRange example_cv = example_inRange"
  "findContours example_cv = (\<lambda>m mode method. example_findContours m)"
  "drawContours example_cv = example_drawContours"
  "dilate example_cv = example_dilate"
  "erode example_cv = example_erode"
  "contourArea example_cv = example_contourArea"
  by (simp_all add: example_cv_def)

lemma example_app_simps:
  "session_id example_app = ''20250101_120000''"
  "image_paths example_app = [''a.png'', ''bad.png'', ''b.png'']"
  "current_image_index example_app = 0"
  "total_images example_app = 3"
  "results_df example_app = []"
  "manual_annotations example_app = Map.empty"
  "scale_factor example_app = 1"
  "scale_unit example_app = ''px''"
  "original_image example_app = Some example_image"
  "processed_image example_app = None"
  "final_rois example_app = []"
  "selected_roi_index example_app = - 1"
  "drawing_mode example_app = False"
  "new_roi_points example_app = []"
  "color_picker_active example_app = False"
  "color_picker_history example_app = []"
  "contrast_value example_app = 1"
  "h_min example_app = 2" "h_max example_app = 91"
  "s_min example_app = 43" "s_max example_app = 164"
  "v_min example_app = 48" "v_max example_app = 196"
  "roi_expansion example_app = 0" "min_area example_app = 0" "max_area example_app = 0"
  "undo_color_pick_btn example_app = DISABLED"
  "dialogs example_app = []"
  by (simp_all add: example_app_def)

lemmas example_evals = example_image_def
  example_inRange_def example_findContours_def example_bgr2hsv_def example_drawContours_def
  example_dilate_def example_erode_def example_contourArea_def shoelace_def enumerate_eq_zip
  zeros_like_def

text \<open>
  C1. On a loaded image the region list is computed in one order: contrast adjustment,
  conversion to HSV, thresholding of the three channels between the lower and the upper
  slider values, contours of the mask with external retrieval; then, only when the
  expansion \<open>r\<close> is not zero, the contours are drawn filled into an empty mask, which is
  dilated (\<open>r > 0\<close>) or eroded (\<open>r < 0\<close>) by a square of ones of side \<open>|r|\<close> and whose
  external contours are extracted again; the area filter comes last, on the contours
  after this step. With \<open>r = 0\<close> the drawing, dilation and erosion primitives play no
  part. With no image loaded the pipeline does nothing.
\<close>

theorem detection_pipeline_order:
  "(original_image st = None \<longrightarrow> run_detection_pipeline cv st = st)
   \<and> (original_image st = Some img \<longrightarrow>
        processed_image (run_detection_pipeline cv st)
          = Some (convertScaleAbs cv img (contrast_value st) 0)
        \<and> final_rois (run_detection_pipeline cv st) =
          (let adjusted = convertScaleAbs cv img (contrast_value st) 0;
               hsv = cvtColor cv adjusted COLOR_BGR2HSV;
               binary = inRange cv hsv [h_min st, s_min st, v_min st] [h_max st, s_max st, v_max st];
               step4 = findContours cv binary RETR_EXTERNAL CHAIN_APPROX_SIMPLE;
               r = roi_expansion st;
               filled = drawContours cv (map (map (\<lambda>_. 0)) binary) step4 (- 1) 255 (- 1);
               square = replicate (nat \<bar>r\<bar>) (replicate (nat \<bar>r\<bar>) 1);
               morphed = (if r > 0 then dilate cv filled square else erode cv filled square);
               post = (if r = 0 then step4
                       else findContours cv morphed RETR_EXTERNAL CHAIN_APPROX_SIMPLE)
           in filter (\<lambda>c. real_of_int (min_area st) \<le> contourArea cv c
                          \<and> contourArea cv c \<le> real_of_int (max_area st)) post))
   \<and> (roi_expansion st = 0 \<longrightarrow>
        run_detection_pipeline (cv\<lparr>drawContours := dc, dilate := di, erode := er\<rparr>) st
          = run_detection_pipeline cv st)"
  by (cases "original_image st") (simp_all add: pipeline_defs area_in_bounds_fun Let_def)


theorem detection_pipeline_order_witness:
  "original_image example_green = Some example_image
   \<and> final_rois (run_detection_pipeline example_cv example_green) = [[(0, 0)], [(2, 0)]]
   \<and> final_rois (run_detection_pipeline example_cv (example_green\<lparr>roi_expansion := 3\<rparr>))
        = [[(0, 0)], [(1, 0)], [(2, 0)]]
   \<and> final_rois (run_detection_pipeline example_cv (example_green\<lparr>roi_expansion := - 3\<rparr>)) = []"
  using detection_pipeline_order [where st = example_green and cv = example_cv
      and img = example_image and dc = example_drawContours and di = example_dilate
      and er = example_erode]
    detection_pipeline_order [where st = "example_green\<lparr>roi_expansion := 3\<rparr>"
      and cv = example_cv and img = example_image and dc = example_drawContours
      and di = example_dilate and er = example_erode]
    detection_pipeline_order [where st = "example_green\<lparr>roi_expansion := - 3\<rparr>"
      and cv = example_cv and img = example_image and dc = example_drawContours
      and di = example_dilate and er = example_erode]
  by (simp add: example_green_def example_app_simps example_cv_simps example_evals Let_def)



section \<open>Facts about the measurements\<close>

lemma roi_row_zero_scale:
  "scale_factor st = 0 \<Longrightarrow> roi_row cv st f i roi = Inl ZeroDivisionError"
  by (simp add: roi_row_def bindE_def py_truediv_def Let_def)

lemma roi_row_guards:
  assumes "scale_factor st \<noteq> 0" and "0 \<le> m00 (moments cv roi)"
  shows "\<exists>row. roi_row cv st f i roi = Inr row
     \<and> (arcLength cv roi True = 0 \<longrightarrow> Circularity_Ratio row = 0)
     \<and> (contourArea cv (convexHull cv roi) = 0 \<longrightarrow> Solidity_Ratio row = 0)
     \<and> (snd (snd (snd (boundingRect cv roi))) = 0 \<longrightarrow> Aspect_Ratio row = 0)
     \<and> (length roi < 5 \<longrightarrow> Orientation_Angle row = None)
     \<and> Centroid_X_px row = py_int (m10 (moments cv roi) / (m00 (moments cv roi) + 1 / 10 ^ 6))
     \<and> Centroid_Y_px row = py_int (m01 (moments cv roi) / (m00 (moments cv roi) + 1 / 10 ^ 6))"
proof -
  have "m00 (moments cv roi) + 1 / 10 ^ 6 \<noteq> 0"
    using assms(2) by simp
  then show ?thesis
    using assms(1) by (simp add: roi_row_def bindE_def py_truediv_def Let_def)
qed

lemma zero_line_confirmed:
  "is_confirmed (confirm_scale (Some 5) (Some ''mm'') example_zero_line)
   \<and> win_scale_factor (confirm_scale (Some 5) (Some ''mm'') example_zero_line) = 0"
  by (simp add: confirm_scale_def example_zero_line_def new_calibration_window_def
      math_dist_def strip_def is_space_def)

text \<open>
  C3. The claim is that the measurement of a region never raises a division error. The
  divisions by the perimeter, by the hull area and by the height of the bounding box are
  guarded, fewer than five vertices give not-a-number as orientation, and the
  denominator of the centroid is shifted by a millionth (\<open>roi_row_guards\<close>). The divisions
  by the scale factor are not guarded: with a scale factor of 0 the measurement of any
  region raises ZeroDivisionError. The calibration window confirms such a scale for a line
  whose two ends coincide, and accepting an image with one region then fails.
\<close>

theorem zero_scale_measurement_raises:
  "roi_row cv (st\<lparr>scale_factor := 0\<rparr>) fname i roi = Inl ZeroDivisionError
   \<and> is_confirmed (confirm_scale (Some 5) (Some ''mm'') example_zero_line)
   \<and> scale_factor (adopt_calibration (confirm_scale (Some 5) (Some ''mm'') example_zero_line)
        (example_green\<lparr>final_rois := [[(0, 0), (10, 0), (0, 10)]]\<rparr>)) = 0
   \<and> handle_accept example_cv
        (adopt_calibration (confirm_scale (Some 5) (Some ''mm'') example_zero_line)
           (example_green\<lparr>final_rois := [[(0, 0), (10, 0), (0, 10)]]\<rparr>))
       = Inl ZeroDivisionError"
  by (simp add: roi_row_zero_scale zero_line_confirmed adopt_calibration_def handle_accept_def
      example_green_def example_app_simps bindE_def)

section \<open>Facts about the colour picker\<close>

lemma scale_set_id: "lo \<le> v \<Longrightarrow> v \<le> hi \<Longrightarrow> scale_set lo hi v = v"
  by (simp add: scale_set_def)

lemma getitem2_singleton: "getitem2 [[p]] 0 0 = Inr p"
  by (simp add: getitem2_def)

lemma on_slider_change_keeps:
  "hsv_of (on_slider_change cv st) = hsv_of st"
  "color_picker_history (on_slider_change cv st) = color_picker_history st"
  "undo_color_pick_btn (on_slider_change cv st) = undo_color_pick_btn st"
  "original_image (on_slider_change cv st) = original_image st"
  by (simp_all add: on_slider_change_def run_detection_pipeline_def deselect_roi_def hsv_of_def
      Let_def split: option.splits)

lemmas set_hsv_defs = set_h_min_def set_h_max_def set_s_min_def set_s_max_def set_v_min_def
  set_v_max_def

text \<open>The state a pick inside the image leaves.\<close>

lemma handle_color_pick_eq:
  assumes "original_image st = Some img"
    and "0 \<le> y" and "y < int (shape0 img)" and "0 \<le> x" and "x < int (shape1 img)"
    and "getitem2 img y x = Inr bgr"
    and "cvtColor cv [[bgr]] COLOR_BGR2HSV = [[(h, s, v)]]"
    and "h \<le> 179" and "s \<le> 255" and "v \<le> 255"
    and "hsv_valid (hsv_of st)"
  shows "handle_color_pick cv x y st =
     Inr (on_slider_change cv
       (if color_picker_history st = [] then
          st\<lparr>color_picker_history := [hsv_of st], undo_color_pick_btn := NORMAL,
             h_min := max 0 (int h - 5), h_max := min 179 (int h + 5),
             s_min := max 0 (int s - 25), s_max := min 255 (int s + 25),
             v_min := max 0 (int v - 25), v_max := min 255 (int v + 25)\<rparr>
        else
          st\<lparr>color_picker_history := color_picker_history st @ [hsv_of st],
             undo_color_pick_btn := NORMAL,
             h_min := min (h_min st) (int h), h_max := max (h_max st) (int h),
             s_min := min (s_min st) (int s), s_max := max (s_max st) (int s),
             v_min := min (v_min st) (int v), v_max := max (v_max st) (int v)\<rparr>))"
proof -
  have r: "0 \<le> h_min st" "h_min st \<le> 179" "0 \<le> h_max st" "h_max st \<le> 179"
    "0 \<le> s_min st" "s_min st \<le> 255" "0 \<le> s_max st" "s_max st \<le> 255"
    "0 \<le> v_min st" "v_min st \<le> 255" "0 \<le> v_max st" "v_max st \<le> 255"
    using assms(11) by (simp_all add: hsv_valid_def hsv_of_def)
  show ?thesis
    using assms(1-10) r
    by (simp add: handle_color_pick_def bindE_def getitem2_singleton set_hsv_defs scale_set_id
        Let_def)
qed

lemma restore_hsv_valid:
  "hsv_valid snap \<Longrightarrow> hsv_of (restore_hsv snap st) = snap"
  by (cases snap) (simp add: restore_hsv_def set_hsv_defs scale_set_id hsv_valid_def hsv_of_def)

lemma restore_hsv_keeps:
  "color_picker_history (restore_hsv snap st) = color_picker_history st"
  "undo_color_pick_btn (restore_hsv snap st) = undo_color_pick_btn st"
  "original_image (restore_hsv snap st) = original_image st"
  by (cases snap; simp add: restore_hsv_def set_hsv_defs)+

lemma hsv_of_updates:
  "hsv_of (st\<lparr>undo_color_pick_btn := b\<rparr>) = hsv_of st"
  "hsv_of (st\<lparr>color_picker_history := hh\<rparr>) = hsv_of st"
  by (simp_all add: hsv_of_def)

lemma undo_last_color_pick_snoc:
  assumes "color_picker_history u = hs @ [snap]" and "hsv_valid snap"
  shows "hsv_of (undo_last_color_pick cv u) = snap"
    and "color_picker_history (undo_last_color_pick cv u) = hs"
    and "undo_color_pick_btn (undo_last_color_pick cv u)
           = (if hs = [] then DISABLED else undo_color_pick_btn u)"
    and "original_image (undo_last_color_pick cv u) = original_image u"
  using assms
  by (simp_all add: undo_last_color_pick_def on_slider_change_keeps restore_hsv_valid
      restore_hsv_keeps hsv_of_updates Let_def)

lemma undo_last_color_pick_empty:
  "color_picker_history u = [] \<Longrightarrow> undo_last_color_pick cv u = u\<lparr>undo_color_pick_btn := DISABLED\<rparr>"
  by (simp add: undo_last_color_pick_def)


lemma handle_color_pick_summary:
  assumes "original_image st = Some img"
    and "0 \<le> y" and "y < int (shape0 img)" and "0 \<le> x" and "x < int (shape1 img)"
    and "getitem2 img y x = Inr bgr"
    and "cvtColor cv [[bgr]] COLOR_BGR2HSV = [[(h, s, v)]]"
    and "h \<le> 179" and "s \<le> 255" and "v \<le> 255"
    and "hsv_valid (hsv_of st)"
  shows "\<exists>a. handle_color_pick cv x y st = Inr a
     \<and> hsv_of a =
        (if color_picker_history st = []
         then (max 0 (int h - 5), min 179 (int h + 5),
               max 0 (int s - 25), min 255 (int s + 25),
               max 0 (int v - 25), min 255 (int v + 25))
         else (min (h_min st) (int h), max (h_max st) (int h),
               min (s_min st) (int s), max (s_max st) (int s),
               min (v_min st) (int v), max (v_max st) (int v)))
     \<and> color_picker_history a = color_picker_history st @ [hsv_of st]
     \<and> undo_color_pick_btn a = NORMAL
     \<and> original_image a = Some img"
  using assms(1)
  by (simp add: handle_color_pick_eq [OF assms] on_slider_change_keeps) (simp add: hsv_of_def)

lemma example_pixel:
  "shape0 example_image = 1" "shape1 example_image = 3"
  "getitem2 example_image 0 0 = Inr (0, 255, 0)"
  "getitem2 example_image 0 1 = Inr (0, 0, 0)"
  "cvtColor example_cv [[(0, 255, 0)]] COLOR_BGR2HSV = [[(60, 255, 255)]]"
  "cvtColor example_cv [[(0, 0, 0)]] COLOR_BGR2HSV = [[(0, 0, 0)]]"
  by (simp_all add: shape0_def shape1_def getitem2_def example_image_def example_cv_simps
      example_bgr2hsv_def)

lemma example_entered:
  "original_image (enter_color_picker_mode example_app) = Some example_image"
  "hsv_of (enter_color_picker_mode example_app) = (2, 91, 43, 164, 48, 196)"
  "color_picker_history (enter_color_picker_mode example_app) = []"
  by (simp_all add: enter_color_picker_mode_def cancel_drawing_def hsv_of_def example_app_simps)

lemma example_picks:
  "map_sum id hsv_of example_undone = Inr (2, 91, 43, 164, 48, 196)
   \<and> map_sum id hsv_of example_second_pick = Inr (55, 65, 230, 255, 230, 255)"
proof -
  let ?s0 = "enter_color_picker_mode example_app"
  have v0: "hsv_valid (hsv_of ?s0)"
    by (simp add: example_entered hsv_valid_def)
  obtain a where a: "handle_color_pick example_cv 0 0 ?s0 = Inr a"
      "color_picker_history a = [(2, 91, 43, 164, 48, 196)]"
      "original_image a = Some example_image"
    using handle_color_pick_summary [OF example_entered(1) _ _ _ _ example_pixel(3)
        example_pixel(5) _ _ _ v0]
    by (auto simp: example_pixel example_entered)
  let ?b = "undo_last_color_pick example_cv a"
  have b: "hsv_of ?b = (2, 91, 43, 164, 48, 196)" "color_picker_history ?b = []"
      "original_image ?b = Some example_image"
    using undo_last_color_pick_snoc [of a "[]" "(2, 91, 43, 164, 48, 196)" example_cv] a
    by (simp_all add: hsv_valid_def)
  have vb: "hsv_valid (hsv_of ?b)"
    by (simp add: b hsv_valid_def)
  obtain c where c: "handle_color_pick example_cv 0 0 ?b = Inr c"
      "hsv_of c = (55, 65, 230, 255, 230, 255)"
    using handle_color_pick_summary [OF b(3) _ _ _ _ example_pixel(3) example_pixel(5) _ _ _ vb]
    by (auto simp: example_pixel b)
  show ?thesis
    by (simp add: example_undone_def example_second_pick_def example_first_pick_def a b c
        bindE_def)
qed

text \<open>
  C4, as stated, fails on the code. Whether a pick is a first pick is decided by the undo
  stack holding exactly the snapshot just pushed, not by the number of picks since
  picking mode was entered. In the session below the first pick is undone, which empties
  the stack and returns the range to (2, 91, 43, 164, 48, 196); the second pick, on a
  pixel of hue 60, then sets the hue range to 55..65 instead of widening 2..91.
\<close>

theorem second_pick_after_undo_reseeds:
  "map_sum id hsv_of example_undone = Inr (2, 91, 43, 164, 48, 196)
   \<and> map_sum id hsv_of example_second_pick = Inr (55, 65, 230, 255, 230, 255)
   \<and> (55 :: int) \<noteq> min 2 60 \<and> (65 :: int) \<noteq> max 91 60"
  using example_picks by simp

text \<open>
  C4, amended. For a pick inside the image, with the sliders within their ranges and the
  sampled hue at most 179: when the undo stack is empty before the pick (as it is on
  entering picking mode, and again once every earlier pick was undone) the range becomes
  h-5..h+5 cut to 0..179 and s-25..s+25, v-25..v+25 cut to 0..255; when the stack is not
  empty each channel's minimum becomes the smaller of the old minimum and the sample and
  its maximum the larger of the old maximum and the sample, so the range does not shrink.
  Every such pick leaves the stack non-empty.
\<close>

theorem color_pick_ranges:
  assumes "original_image st = Some img"
    and "0 \<le> y" and "y < int (shape0 img)" and "0 \<le> x" and "x < int (shape1 img)"
    and "getitem2 img y x = Inr bgr"
    and "cvtColor cv [[bgr]] COLOR_BGR2HSV = [[(h, s, v)]]"
    and "h \<le> 179" and "s \<le> 255" and "v \<le> 255"
    and "hsv_valid (hsv_of st)"
  shows "color_picker_history (enter_color_picker_mode st) = []
    \<and> map_sum id color_picker_history (handle_color_pick cv x y st)
          = Inr (color_picker_history st @ [hsv_of st])
    \<and> map_sum id hsv_of (handle_color_pick cv x y st) =
        Inr (if color_picker_history st = []
             then (max 0 (int h - 5), min 179 (int h + 5),
                   max 0 (int s - 25), min 255 (int s + 25),
                   max 0 (int v - 25), min 255 (int v + 25))
             else (min (h_min st) (int h), max (h_max st) (int h),
                   min (s_min st) (int s), max (s_max st) (int s),
                   min (v_min st) (int v), max (v_max st) (int v)))"
  by (simp add: handle_color_pick_eq [OF assms] on_slider_change_keeps enter_color_picker_mode_def
      cancel_drawing_def) (simp add: hsv_of_def)

theorem color_pick_ranges_witness:
  "map_sum id hsv_of (handle_color_pick example_cv 0 0 (enter_color_picker_mode example_app))
     = Inr (55, 65, 230, 255, 230, 255)
   \<and> map_sum id color_picker_history
        (handle_color_pick example_cv 0 0 (enter_color_picker_mode example_app))
     = Inr [(2, 91, 43, 164, 48, 196)]
   \<and> map_sum id hsv_of
        (handle_color_pick example_cv 1 0
           (example_green\<lparr>color_picker_history := [(2, 91, 43, 164, 48, 196)]\<rparr>))
     = Inr (0, 65, 0, 255, 0, 255)"
proof -
  have g: "original_image (example_green\<lparr>color_picker_history := [(2, 91, 43, 164, 48, 196)]\<rparr>)
        = Some example_image"
    "hsv_of (example_green\<lparr>color_picker_history := [(2, 91, 43, 164, 48, 196)]\<rparr>)
        = (55, 65, 230, 255, 230, 255)"
    by (simp_all add: example_green_def example_app_simps hsv_of_def)
  show ?thesis
    using color_pick_ranges [OF example_entered(1) _ _ _ _ example_pixel(3) example_pixel(5)]
      color_pick_ranges [OF g(1) _ _ _ _ example_pixel(4) example_pixel(6)]
    by (simp add: example_pixel example_entered g hsv_valid_def)
      (simp add: example_green_def example_app_simps)
qed

text \<open>
  C5. A pick inside the image pushes the six slider values it found onto the undo stack;
  undoing right after the pick restores exactly those six values and the stack as it was.
  Undo pops the last snapshot and sets the sliders to it; once the stack is empty the undo
  button is disabled, and undoing on an empty stack changes no slider.
\<close>

theorem pick_then_undo_restores:
  assumes "original_image st = Some img"
    and "0 \<le> y" and "y < int (shape0 img)" and "0 \<le> x" and "x < int (shape1 img)"
    and "getitem2 img y x = Inr bgr"
    and "cvtColor cv [[bgr]] COLOR_BGR2HSV = [[(h, s, v)]]"
    and "h \<le> 179" and "s \<le> 255" and "v \<le> 255"
    and "hsv_valid (hsv_of st)"
  shows "map_sum id color_picker_history (handle_color_pick cv x y st)
          = Inr (color_picker_history st @ [hsv_of st])
    \<and> map_sum id (\<lambda>a. hsv_of (undo_last_color_pick cv a)) (handle_color_pick cv x y st)
          = Inr (hsv_of st)
    \<and> map_sum id (\<lambda>a. color_picker_history (undo_last_color_pick cv a))
          (handle_color_pick cv x y st) = Inr (color_picker_history st)
    \<and> map_sum id (\<lambda>a. undo_color_pick_btn (undo_last_color_pick cv a))
          (handle_color_pick cv x y st)
          = Inr (if color_picker_history st = [] then DISABLED else NORMAL)
    \<and> (color_picker_history u = hs @ [snap] \<and> hsv_valid snap \<longrightarrow>
          hsv_of (undo_last_color_pick cv u) = snap
          \<and> color_picker_history (undo_last_color_pick cv u) = hs
          \<and> (hs = [] \<longrightarrow> undo_color_pick_btn (undo_last_color_pick cv u) = DISABLED))
    \<and> (color_picker_history u = [] \<longrightarrow>
          undo_last_color_pick cv u = u\<lparr>undo_color_pick_btn := DISABLED\<rparr>)"
proof -
  obtain a where a: "handle_color_pick cv x y st = Inr a"
      "color_picker_history a = color_picker_history st @ [hsv_of st]"
      "undo_color_pick_btn a = NORMAL"
    using handle_color_pick_summary [OF assms] by blast
  have "hsv_of (undo_last_color_pick cv a) = hsv_of st"
    and "color_picker_history (undo_last_color_pick cv a) = color_picker_history st"
    and "undo_color_pick_btn (undo_last_color_pick cv a)
          = (if color_picker_history st = [] then DISABLED else NORMAL)"
    using undo_last_color_pick_snoc [OF a(2) assms(11), of cv] a(3) by simp_all
  then show ?thesis
    using a by (simp add: undo_last_color_pick_snoc undo_last_color_pick_empty)
qed

theorem pick_then_undo_restores_witness:
  "map_sum id color_picker_history
     (handle_color_pick example_cv 0 0 (enter_color_picker_mode example_app))
     = Inr [(2, 91, 43, 164, 48, 196)]
   \<and> map_sum id (\<lambda>a. hsv_of (undo_last_color_pick example_cv a))
        (handle_color_pick example_cv 0 0 (enter_color_picker_mode example_app))
     = Inr (2, 91, 43, 164, 48, 196)
   \<and> map_sum id (\<lambda>a. color_picker_history (undo_last_color_pick example_cv a))
        (handle_color_pick example_cv 0 0 (enter_color_picker_mode example_app)) = Inr []
   \<and> map_sum id (\<lambda>a. undo_color_pick_btn (undo_last_color_pick example_cv a))
        (handle_color_pick example_cv 0 0 (enter_color_picker_mode example_app)) = Inr DISABLED
   \<and> hsv_of (undo_last_color_pick example_cv
        (example_green\<lparr>color_picker_history := [(2, 91, 43, 164, 48, 196)]\<rparr>))
     = (2, 91, 43, 164, 48, 196)
   \<and> undo_last_color_pick example_cv example_app
     = example_app\<lparr>undo_color_pick_btn := DISABLED\<rparr>"
  using pick_then_undo_restores [OF example_entered(1) _ _ _ _ example_pixel(3) example_pixel(5),
      where u = "example_green\<lparr>color_picker_history := [(2, 91, 43, 164, 48, 196)]\<rparr>"
      and hs = "[]" and snap = "(2, 91, 43, 164, 48, 196)"]
    pick_then_undo_restores [OF example_entered(1) _ _ _ _ example_pixel(3) example_pixel(5),
      where u = example_app and hs = "[]" and snap = "(2, 91, 43, 164, 48, 196)"]
  by (simp add: example_pixel example_entered example_app_simps hsv_valid_def)

section \<open>Facts about editing the region list\<close>

text \<open>
  C7. Finishing a drawing of at least three points appends one region, made of those
  points, at the end of the region list: it is the last region, so its display id (its
  position plus one) is the new length of the list. With fewer than three points a
  warning is shown and no region is added. Either way the regions already in the list
  stay where they are, the drawing is over and its points are dropped.
\<close>

theorem finalize_roi_appends:
  "(length (new_roi_points st) \<ge> 3 \<longrightarrow>
      final_rois (finalize_roi st) = final_rois st @ [new_roi_points st]
      \<and> length (final_rois (finalize_roi st)) = length (final_rois st) + 1
      \<and> final_rois (finalize_roi st) ! (length (final_rois (finalize_roi st)) - 1)
          = new_roi_points st
      \<and> dialogs (finalize_roi st) = dialogs st)
   \<and> (length (new_roi_points st) < 3 \<longrightarrow>
      final_rois (finalize_roi st) = final_rois st
      \<and> dialogs (finalize_roi st) = dialogs st @ [ShowWarning ''Drawing Error''])
   \<and> (\<forall>i < length (final_rois st). final_rois (finalize_roi st) ! i = final_rois st ! i)
   \<and> \<not> drawing_mode (finalize_roi st) \<and> new_roi_points (finalize_roi st) = []
   \<and> manual_annotations (finalize_roi st) = manual_annotations st"
  by (simp add: finalize_roi_def cancel_drawing_def nth_append)

theorem finalize_roi_appends_witness:
  "final_rois (finalize_roi (example_green\<lparr>final_rois := [[(0, 0)], [(2, 0)]],
       drawing_mode := True, new_roi_points := [(0, 0), (2, 0), (2, 0)]\<rparr>))
     = [[(0, 0)], [(2, 0)], [(0, 0), (2, 0), (2, 0)]]
   \<and> final_rois (finalize_roi (example_green\<lparr>final_rois := [[(0, 0)], [(2, 0)]],
       drawing_mode := True, new_roi_points := [(0, 0), (2, 0)]\<rparr>))
     = [[(0, 0)], [(2, 0)]]
   \<and> dialogs (finalize_roi (example_green\<lparr>final_rois := [[(0, 0)], [(2, 0)]],
       drawing_mode := True, new_roi_points := [(0, 0), (2, 0)]\<rparr>))
     = [ShowWarning ''Drawing Error'']"
  using finalize_roi_appends [of "example_green\<lparr>final_rois := [[(0, 0)], [(2, 0)]],
       drawing_mode := True, new_roi_points := [(0, 0), (2, 0), (2, 0)]\<rparr>"]
    finalize_roi_appends [of "example_green\<lparr>final_rois := [[(0, 0)], [(2, 0)]],
       drawing_mode := True, new_roi_points := [(0, 0), (2, 0)]\<rparr>"]
  by (simp add: example_green_def example_app_simps)

lemma py_pop_in_range:
  "0 \<le> i \<Longrightarrow> i < int (length xs) \<Longrightarrow> py_pop xs i = Inr (take (nat i) xs @ drop (Suc (nat i)) xs)"
  by (simp add: py_pop_def remove_nth_def)

text \<open>
  C8. With a region selected, deleting removes the region at the selected position and
  no other, and removes the annotation kept under its display id (position plus one);
  the annotations under every other id, the higher ones included, stay under their ids.
  With nothing selected (index -1) the state is returned unchanged, without error.
\<close>

theorem delete_selected_roi_effect:
  "(selected_roi_index st = - 1 \<longrightarrow> delete_selected_roi st = Inr st)
   \<and> (0 \<le> selected_roi_index st \<and> selected_roi_index st < int (length (final_rois st)) \<longrightarrow>
        (\<exists>st'. delete_selected_roi st = Inr st'
           \<and> final_rois st' = take (nat (selected_roi_index st)) (final_rois st)
                               @ drop (Suc (nat (selected_roi_index st))) (final_rois st)
           \<and> length (final_rois st') + 1 = length (final_rois st)
           \<and> manual_annotations st' (selected_roi_index st + 1) = None
           \<and> (\<forall>k. k \<noteq> selected_roi_index st + 1 \<longrightarrow>
                  manual_annotations st' k = manual_annotations st k)
           \<and> selected_roi_index st' = - 1))"
  by (auto simp: delete_selected_roi_def bindE_def py_pop_in_range deselect_roi_def Let_def)

theorem delete_selected_roi_effect_witness:
  "map_sum id final_rois (delete_selected_roi
      (example_green\<lparr>final_rois := [[(0, 0)], [(1, 0)], [(2, 0)]], selected_roi_index := 1,
         manual_annotations :=
           [2 \<mapsto> \<lparr>Long_Axis_Length = 4, Short_Axis_Length = 2,
                    Long_Axis_Texture = ''Smooth'', Short_Axis_Texture = ''Rough''\<rparr>,
            3 \<mapsto> \<lparr>Long_Axis_Length = 9, Short_Axis_Length = 3,
                    Long_Axis_Texture = ''Rough'', Short_Axis_Texture = ''N/A''\<rparr>]\<rparr>))
     = Inr [[(0, 0)], [(2, 0)]]
   \<and> map_sum id (\<lambda>s. (manual_annotations s 2, manual_annotations s 3)) (delete_selected_roi
      (example_green\<lparr>final_rois := [[(0, 0)], [(1, 0)], [(2, 0)]], selected_roi_index := 1,
         manual_annotations :=
           [2 \<mapsto> \<lparr>Long_Axis_Length = 4, Short_Axis_Length = 2,
                    Long_Axis_Texture = ''Smooth'', Short_Axis_Texture = ''Rough''\<rparr>,
            3 \<mapsto> \<lparr>Long_Axis_Length = 9, Short_Axis_Length = 3,
                    Long_Axis_Texture = ''Rough'', Short_Axis_Texture = ''N/A''\<rparr>]\<rparr>))
     = Inr (None, Some \<lparr>Long_Axis_Length = 9, Short_Axis_Length = 3,
                    Long_Axis_Texture = ''Rough'', Short_Axis_Texture = ''N/A''\<rparr>)
   \<and> delete_selected_roi example_green = Inr example_green"
  using delete_selected_roi_effect [of "example_green\<lparr>final_rois := [[(0, 0)], [(1, 0)], [(2, 0)]],
         selected_roi_index := 1,
         manual_annotations :=
           [2 \<mapsto> \<lparr>Long_Axis_Length = 4, Short_Axis_Length = 2,
                    Long_Axis_Texture = ''Smooth'', Short_Axis_Texture = ''Rough''\<rparr>,
            3 \<mapsto> \<lparr>Long_Axis_Length = 9, Short_Axis_Length = 3,
                    Long_Axis_Texture = ''Rough'', Short_Axis_Texture = ''N/A''\<rparr>]\<rparr>"]
    delete_selected_roi_effect [of example_green]
  by (auto simp: example_green_def example_app_simps)

section \<open>Facts about the scale calibration\<close>








section \<open>Facts about moving to the next image\<close>









section \<open>The sliders stay within their ranges\<close>

text \<open>
  The facts above about picks and undo take the six slider values within the ranges of
  their sliders. That is how the program starts, and setting the sliders, undoing and
  picking keep it so.
\<close>

lemma scale_set_range: "lo \<le> hi \<Longrightarrow> lo \<le> scale_set lo hi v \<and> scale_set lo hi v \<le> hi"
  by (simp add: scale_set_def)

lemma hsv_valid_init: "hsv_valid (hsv_of (init_app sid))"
  by (simp add: hsv_valid_def hsv_of_def init_app_def)

lemma hsv_valid_sets:
  "hsv_valid (hsv_of (set_v_max f (set_v_min e (set_s_max d (set_s_min c (set_h_max b
      (set_h_min a st)))))))"
  using scale_set_range [of 0 179 a] scale_set_range [of 0 179 b] scale_set_range [of 0 255 c]
    scale_set_range [of 0 255 d] scale_set_range [of 0 255 e] scale_set_range [of 0 255 f]
  by (simp add: hsv_valid_def hsv_of_def set_hsv_defs)

lemma hsv_valid_restore: "hsv_valid (hsv_of (restore_hsv snap st))"
  by (cases snap) (simp add: restore_hsv_def hsv_valid_sets)

lemma hsv_valid_reset: "hsv_valid (hsv_of (reset_hsv_defaults cv st))"
  by (simp add: reset_hsv_defaults_def on_slider_change_keeps hsv_valid_sets)

lemma hsv_valid_undo:
  "hsv_valid (hsv_of st) \<Longrightarrow> hsv_valid (hsv_of (undo_last_color_pick cv st))"
  by (simp add: undo_last_color_pick_def on_slider_change_keeps hsv_valid_restore hsv_of_updates
      Let_def)

lemma hsv_valid_pick:
  assumes "original_image st = Some img"
    and "0 \<le> y" and "y < int (shape0 img)" and "0 \<le> x" and "x < int (shape1 img)"
    and "getitem2 img y x = Inr bgr"
    and "cvtColor cv [[bgr]] COLOR_BGR2HSV = [[(h, s, v)]]"
    and "h \<le> 179" and "s \<le> 255" and "v \<le> 255"
    and "hsv_valid (hsv_of st)"
    and "handle_color_pick cv x y st = Inr st'"
  shows "hsv_valid (hsv_of st')"
proof -
  have r: "0 \<le> h_min st" "h_min st \<le> 179" "0 \<le> h_max st" "h_max st \<le> 179"
    "0 \<le> s_min st" "s_min st \<le> 255" "0 \<le> s_max st" "s_max st \<le> 255"
    "0 \<le> v_min st" "v_min st \<le> 255" "0 \<le> v_max st" "v_max st \<le> 255"
    using assms(11) by (simp_all add: hsv_valid_def hsv_of_def)
  obtain a where "handle_color_pick cv x y st = Inr a" and
    "hsv_of a =
        (if color_picker_history st = []
         then (max 0 (int h - 5), min 179 (int h + 5),
               max 0 (int s - 25), min 255 (int s + 25),
               max 0 (int v - 25), min 255 (int v + 25))
         else (min (h_min st) (int h), max (h_max st) (int h),
               min (s_min st) (int s), max (s_max st) (int s),
               min (v_min st) (int v), max (v_max st) (int v)))"
    using handle_color_pick_summary [OF assms(1-11)] by blast
  then show ?thesis
    using assms(8-10,12) r by (auto simp: hsv_valid_def min_def max_def)
qed

end
